theory Spec2Isabelle
  imports Main
begin

text \<open>
  The client of the repository is a React component, \<^verbatim>\<open>Home\<close>, in two versions: the
  page of src/unnamed/part_000, which keeps a list of chat sessions keyed by
  \<^verbatim>\<open>uniqueId\<close>, and the page of frontend/src/app/page.tsx, which keeps a list of videos
  and a separate transcript buffer. Both are modelled here: the state of a component is
  a record of its \<^verbatim>\<open>useState\<close> cells, and a handler is a function from state to state.

  An \<^verbatim>\<open>async\<close> handler is two functions, one for the code up to its \<^verbatim>\<open>await\<close>
  (\<open>_begin\<close>, which also returns the request it sends, or \<open>None\<close> when it returns
  early) and one for the code after it (\<open>_settle\<close>), which takes how the fetch ended
  and the state at that moment. Values that the second part reads from the closure of the
  call are passed to it explicitly. A setter called with a value overwrites the cell; a
  setter called with a function is applied to the state at that moment. The body of a
  \<^verbatim>\<open>try\<close> block is a function into \<open>thrown + state\<close>, and the \<^verbatim>\<open>catch\<close> block is
  the case \<open>Inl\<close>.
\<close>

section \<open>JavaScript values used by the pages\<close>

text \<open>
  Strings are lists of characters. A string is falsy exactly when it is empty, so
  \<^verbatim>\<open>a || b\<close> on strings is \<open>a\<close> when \<open>a\<close> is non-empty and \<open>b\<close> otherwise.
\<close>

definition or_else :: "string \<Rightarrow> string \<Rightarrow> string" where
  "or_else a b = (if a = [] then b else a)"

text \<open>
  \<^verbatim>\<open>String.prototype.trim\<close> removes white space and line terminators from both ends.
  The characters below are those among the first 256 code points: tab, line feed,
  vertical tab, form feed, carriage return, space and no-break space.
\<close>

definition isWhiteSpace :: "char \<Rightarrow> bool" where
  "isWhiteSpace c =
     (c = CHR 0x09 \<or> c = CHR 0x0A \<or> c = CHR 0x0B \<or> c = CHR 0x0C \<or> c = CHR 0x0D
      \<or> c = CHR 0x20 \<or> c = CHR 0xA0)"

definition trim :: "string \<Rightarrow> string" where
  "trim s = rev (dropWhile isWhiteSpace (rev (dropWhile isWhiteSpace s)))"

text \<open>
  The decimal digits of a natural number: what a template literal prints for the length
  of an array plus one.
\<close>

fun digits :: "nat \<Rightarrow> string" where
  "digits n =
     (if n < 10 then [''0123456789'' ! n]
      else digits (n div 10) @ [''0123456789'' ! (n mod 10)])"

declare digits.simps [simp del]

text \<open>\<^verbatim>\<open>s.split('/').pop()\<close>: the part of \<open>s\<close> after its last slash.\<close>

definition split_pop :: "string \<Rightarrow> string" where
  "split_pop s = rev (takeWhile (\<lambda>c. c \<noteq> CHR ''/'') (rev s))"

text \<open>
  What a handler can throw: an \<^verbatim>\<open>Error\<close> object with its message, or some other
  value (the handlers test \<^verbatim>\<open>err instanceof Error\<close>).
\<close>

datatype thrown = Error string | NotError

definition err_message :: "thrown \<Rightarrow> string \<Rightarrow> string" where
  "err_message err dflt = (case err of Error m \<Rightarrow> m | NotError \<Rightarrow> dflt)"

text \<open>
  How an awaited \<^verbatim>\<open>fetch\<close> followed by \<^verbatim>\<open>res.json()\<close> can end: the fetch promise
  rejects (transport failure), the response has \<^verbatim>\<open>res.ok\<close> false (with its status
  text and body text), the body is not JSON, or the parsed body arrives.
\<close>

datatype 'a fetched =
    Rejected thrown
  | NotOk string string
  | BadJson thrown
  | Ok 'a

text \<open>The requests the pages send: endpoint and JSON body.\<close>

datatype request =
    IngestVideo string string
  | Query string string nat
  | IngestUrl string
  | QueryById string string nat

section \<open>Messages\<close>

text \<open>Both pages declare the same \<^verbatim>\<open>Message\<close> interface.\<close>

datatype role = User | Assistant

record Message =
  role :: role
  content :: string

section \<open>The page with sessions (src/unnamed/part_000)\<close>

text \<open>
  A session: \<open>id'\<close> is the field \<^verbatim>\<open>id\<close>, the identifier the backend knows the video
  by, and \<open>uniqueId\<close> the key of the session in the page.
\<close>

record ChatSession =
  id' :: string
  uniqueId :: string
  title :: string
  messages :: "Message list"

text \<open>
  The state of the component: its seven \<^verbatim>\<open>useState\<close> cells, and the two output
  channels its handlers write to, \<^verbatim>\<open>alert\<close> and \<^verbatim>\<open>console.error\<close> (oldest first).
\<close>

record Home =
  sessions :: "ChatSession list"
  activeSessionId :: "string option"
  urlInput :: string
  titleInput :: string
  questionInput :: string
  loading :: bool
  statusText :: string
  alerts :: "string list"
  console :: "string list"

definition Home_init :: Home where
  "Home_init =
     \<lparr>sessions = [], activeSessionId = None, urlInput = [], titleInput = [],
      questionInput = [], loading = False, statusText = [], alerts = [], console = []\<rparr>"

text \<open>\<^verbatim>\<open>sessions.find(s => s.uniqueId === activeSessionId)\<close>, computed at each render.\<close>

definition activeChat :: "Home \<Rightarrow> ChatSession option" where
  "activeChat st =
     (case activeSessionId st of
        None \<Rightarrow> None
      | Some k \<Rightarrow> find (\<lambda>s. uniqueId s = k) (sessions st))"

definition setActiveSessionId :: "string option \<Rightarrow> Home \<Rightarrow> Home" where
  "setActiveSessionId k st = st\<lparr>activeSessionId := k\<rparr>"

subsection \<open>fetchVideosFromDB\<close>

text \<open>
  A row of the listing, with the two fields the page reads. The parsed body of the
  listing is an array of rows, or anything else.
\<close>

record video_row =
  url :: string
  description :: string

datatype listing = NotArray | Rows "video_row list"

definition fetchVideosFromDB_try :: "listing fetched \<Rightarrow> Home \<Rightarrow> thrown + Home" where
  "fetchVideosFromDB_try r st =
     (case r of
        Rejected e \<Rightarrow> Inl e
      | NotOk stat body \<Rightarrow>
          Inr (st\<lparr>console := console st @ [''Failed to fetch videos:'']\<rparr>)
      | BadJson e \<Rightarrow> Inl e
      | Ok NotArray \<Rightarrow>
          Inr (st\<lparr>console := console st @ [''Expected array but got:''], sessions := []\<rparr>)
      | Ok (Rows data) \<Rightarrow>
          Inr (st\<lparr>sessions :=
                 map (\<lambda>v. \<lparr>id' = url v, uniqueId = url v, title = description v,
                            messages = []\<rparr>) data\<rparr>))"

definition fetchVideosFromDB :: "listing fetched \<Rightarrow> Home \<Rightarrow> Home" where
  "fetchVideosFromDB r st =
     (case fetchVideosFromDB_try r st of
        Inl err \<Rightarrow> st\<lparr>console := console st @ [''Failed to load history''], sessions := []\<rparr>
      | Inr st' \<Rightarrow> st')"

subsection \<open>addMessageToSession and handleDelete\<close>

definition addMessageToSession :: "string \<Rightarrow> Message \<Rightarrow> Home \<Rightarrow> Home" where
  "addMessageToSession uid msg st =
     st\<lparr>sessions :=
          map (\<lambda>s. if uniqueId s = uid then s\<lparr>messages := messages s @ [msg]\<rparr> else s)
            (sessions st)\<rparr>"

definition handleDelete :: "string \<Rightarrow> Home \<Rightarrow> Home" where
  "handleDelete uid st =
     (let st1 = st\<lparr>sessions := filter (\<lambda>s. uniqueId s \<noteq> uid) (sessions st)\<rparr>
      in if activeSessionId st = Some uid then st1\<lparr>activeSessionId := None\<rparr> else st1)"

subsection \<open>handleIngest\<close>

text \<open>
  The parsed answer of the ingest, with the two fields the page reads; the description
  may be missing.
\<close>

record ingest_response =
  video_url :: string
  video_description :: "string option"

text \<open>
  The handler runs in two parts: up to the \<^verbatim>\<open>await\<close>, and from the settled fetch on.
  The second part still reads \<^verbatim>\<open>titleInput\<close> and \<^verbatim>\<open>sessions\<close> from the render in
  which the handler was called: \<open>snap\<close> is that state, \<open>st\<close> the state when the fetch
  settles.
\<close>

definition placeholder :: "Home \<Rightarrow> string" where
  "placeholder snap = ''Video '' @ digits (length (sessions snap) + 1)"

definition handleIngest_begin :: "Home \<Rightarrow> Home \<times> request option" where
  "handleIngest_begin st =
     (if urlInput st = [] then (st, None)
      else (st\<lparr>loading := True, statusText := ''Downloading and processing...''\<rparr>,
            Some (IngestVideo (urlInput st) (or_else (titleInput st) (placeholder st)))))"

definition newSession :: "Home \<Rightarrow> ingest_response \<Rightarrow> ChatSession" where
  "newSession snap data =
     \<lparr>id' = video_url data, uniqueId = video_url data,
      title = or_else (case video_description data of None \<Rightarrow> [] | Some d \<Rightarrow> d)
                (or_else (titleInput snap) (placeholder snap)),
      messages = []\<rparr>"

definition handleIngest_try :: "Home \<Rightarrow> ingest_response fetched \<Rightarrow> Home \<Rightarrow> thrown + Home" where
  "handleIngest_try snap r st =
     (case r of
        Rejected e \<Rightarrow> Inl e
      | NotOk stat body \<Rightarrow> Inl (Error body)
      | BadJson e \<Rightarrow> Inl e
      | Ok data \<Rightarrow>
          Inr (st\<lparr>sessions := newSession snap data # sessions snap,
                  activeSessionId := Some (video_url data),
                  urlInput := [], titleInput := [], statusText := []\<rparr>))"

definition handleIngest_settle :: "Home \<Rightarrow> ingest_response fetched \<Rightarrow> Home \<Rightarrow> Home" where
  "handleIngest_settle snap r st =
     (let st' = (case handleIngest_try snap r st of
                   Inl err \<Rightarrow>
                     st\<lparr>alerts := alerts st @ [''Error: '' @ err_message err ''Unknown error'']\<rparr>
                 | Inr st1 \<Rightarrow> st1)
      in st'\<lparr>loading := False\<rparr>)"

text \<open>A whole call with nothing happening between the request and its answer.\<close>

definition handleIngest :: "ingest_response fetched \<Rightarrow> Home \<Rightarrow> Home" where
  "handleIngest r st =
     (case handleIngest_begin st of
        (st1, None) \<Rightarrow> st1
      | (st1, Some req) \<Rightarrow> handleIngest_settle st r st1)"

subsection \<open>handleSend\<close>

text \<open>
  The part after the \<^verbatim>\<open>await\<close> reads \<^verbatim>\<open>activeChat\<close> from the render in which the
  handler was called; \<open>c\<close> is that session object.
\<close>

definition handleSend_begin :: "Home \<Rightarrow> Home \<times> (ChatSession \<times> request) option" where
  "handleSend_begin st =
     (case activeChat st of
        None \<Rightarrow> (st, None)
      | Some c \<Rightarrow>
          if trim (questionInput st) = [] then (st, None)
          else
            (let currentQ = questionInput st;
                 st1 = st\<lparr>questionInput := []\<rparr>;
                 st2 = addMessageToSession (uniqueId c) \<lparr>role = User, content = currentQ\<rparr> st1
             in (st2\<lparr>loading := True\<rparr>, Some (c, Query currentQ (id' c) 8))))"

definition handleSend_try :: "ChatSession \<Rightarrow> string fetched \<Rightarrow> Home \<Rightarrow> thrown + Home" where
  "handleSend_try c r st =
     (case r of
        Rejected e \<Rightarrow> Inl e
      | NotOk stat body \<Rightarrow> Inl (Error body)
      | BadJson e \<Rightarrow> Inl e
      | Ok response \<Rightarrow>
          Inr (addMessageToSession (uniqueId c) \<lparr>role = Assistant, content = response\<rparr> st))"

definition handleSend_settle :: "ChatSession \<Rightarrow> string fetched \<Rightarrow> Home \<Rightarrow> Home" where
  "handleSend_settle c r st =
     (let st' = (case handleSend_try c r st of
                   Inl err \<Rightarrow>
                     addMessageToSession (uniqueId c)
                       \<lparr>role = Assistant, content = ''Error: Failed to get response.''\<rparr> st
                 | Inr st1 \<Rightarrow> st1)
      in st'\<lparr>loading := False\<rparr>)"

section \<open>The page with a transcript buffer (frontend/src/app/page.tsx)\<close>

text \<open>
  This page declares the same names as the one above; its fields and handlers carry the
  suffix \<open>_page\<close> where they would clash. The page never calls \<^verbatim>\<open>alert\<close>;
  \<open>alerts_page\<close> is that output channel, which no handler writes to.
\<close>

record VideoChat =
  videoId :: string
  title_page :: string
  messages_page :: "Message list"

record Home_page =
  url_page :: string
  loading_page :: bool
  status :: string
  videos :: "VideoChat list"
  activeVideoId :: "string option"
  question :: string
  currentMessages :: "Message list"
  alerts_page :: "string list"

text \<open>
  The parsed answer of the ingest, with the two fields the page reads. The page only
  prints \<^verbatim>\<open>chunk_count\<close>, in a template literal: the field holds the text printed
  for it.
\<close>

record process_response =
  video_id :: string
  chunk_count :: string

subsection \<open>handleProcess\<close>

definition handleProcess_begin :: "Home_page \<Rightarrow> Home_page \<times> request option" where
  "handleProcess_begin pt =
     (if url_page pt = [] then (pt, None)
      else (pt\<lparr>loading_page := True, status := ''Processing video...''\<rparr>,
            Some (IngestUrl (url_page pt))))"

definition handleProcess_try ::
  "Home_page \<Rightarrow> process_response fetched \<Rightarrow> Home_page \<Rightarrow> thrown + Home_page" where
  "handleProcess_try snap r pt =
     (case r of
        Rejected e \<Rightarrow> Inl e
      | NotOk stat body \<Rightarrow> Inl (Error body)
      | BadJson e \<Rightarrow> Inl e
      | Ok data \<Rightarrow>
          Inr (pt\<lparr>videos :=
                    videos pt @
                      [\<lparr>videoId = video_id data,
                        title_page = or_else (split_pop (url_page snap)) ''Video'',
                        messages_page = []\<rparr>],
                  activeVideoId := Some (video_id data),
                  currentMessages := [],
                  status := ''Ingested successfully! ('' @ chunk_count data @ '' chunks)'',
                  url_page := []\<rparr>))"

definition handleProcess_settle ::
  "Home_page \<Rightarrow> process_response fetched \<Rightarrow> Home_page \<Rightarrow> Home_page" where
  "handleProcess_settle snap r pt =
     (let pt' = (case handleProcess_try snap r pt of
                   Inl err \<Rightarrow> pt\<lparr>status := ''Error: '' @ err_message err ''Unknown error''\<rparr>
                 | Inr pt1 \<Rightarrow> pt1)
      in pt'\<lparr>loading_page := False\<rparr>)"

definition handleProcess :: "process_response fetched \<Rightarrow> Home_page \<Rightarrow> Home_page" where
  "handleProcess r pt =
     (case handleProcess_begin pt of
        (pt1, None) \<Rightarrow> pt1
      | (pt1, Some req) \<Rightarrow> handleProcess_settle pt r pt1)"

subsection \<open>handleSend and the sidebar buttons\<close>

text \<open>
  The part after the \<^verbatim>\<open>await\<close> reads \<^verbatim>\<open>userMessage\<close> and \<^verbatim>\<open>activeVideoId\<close> from
  the call: the pair \<open>(userMessage, vid)\<close>. A video id is falsy when it is \<^verbatim>\<open>null\<close>
  or empty.
\<close>

definition handleSend_page_begin ::
  "Home_page \<Rightarrow> Home_page \<times> ((Message \<times> string) \<times> request) option" where
  "handleSend_page_begin pt =
     (case activeVideoId pt of
        None \<Rightarrow> (pt, None)
      | Some vid \<Rightarrow>
          if trim (question pt) = [] \<or> vid = [] then (pt, None)
          else
            (let userMessage = \<lparr>role = User, content = question pt\<rparr>
             in (pt\<lparr>currentMessages := currentMessages pt @ [userMessage],
                    question := [], loading_page := True\<rparr>,
                 Some ((userMessage, vid), QueryById (question pt) vid 5))))"

definition handleSend_page_try ::
  "Message \<times> string \<Rightarrow> string fetched \<Rightarrow> Home_page \<Rightarrow> thrown + Home_page" where
  "handleSend_page_try cl r pt =
     (case r of
        Rejected e \<Rightarrow> Inl e
      | NotOk stat body \<Rightarrow> Inl (Error body)
      | BadJson e \<Rightarrow> Inl e
      | Ok response \<Rightarrow>
          (let userMessage = fst cl; vid = snd cl;
               aiMessage = \<lparr>role = Assistant, content = response\<rparr>
           in Inr (pt\<lparr>currentMessages := currentMessages pt @ [aiMessage],
                      videos :=
                        map (\<lambda>v. if videoId v = vid
                                  then v\<lparr>messages_page := messages_page v @ [userMessage, aiMessage]\<rparr>
                                  else v)
                          (videos pt)\<rparr>)))"

definition handleSend_page_settle ::
  "Message \<times> string \<Rightarrow> string fetched \<Rightarrow> Home_page \<Rightarrow> Home_page" where
  "handleSend_page_settle cl r pt =
     (let pt' = (case handleSend_page_try cl r pt of
                   Inl err \<Rightarrow>
                     pt\<lparr>currentMessages :=
                          currentMessages pt @
                            [\<lparr>role = Assistant,
                              content = ''Error: '' @ err_message err ''Failed to query''\<rparr>]\<rparr>
                 | Inr pt1 \<Rightarrow> pt1)
      in pt'\<lparr>loading_page := False\<rparr>)"

text \<open>The button of a video in the sidebar.\<close>

definition onClick_video :: "VideoChat \<Rightarrow> Home_page \<Rightarrow> Home_page" where
  "onClick_video video pt =
     pt\<lparr>activeVideoId := Some (videoId video), currentMessages := messages_page video\<rparr>"

section \<open>Derived notions\<close>

text \<open>The keys of the live sessions, and the history the view shows for a key.\<close>

definition keys :: "Home \<Rightarrow> string list" where
  "keys st = map uniqueId (sessions st)"

definition history :: "string \<Rightarrow> Home \<Rightarrow> Message list option" where
  "history k st = map_option messages (find (\<lambda>s. uniqueId s = k) (sessions st))"

definition history_page :: "string \<Rightarrow> Home_page \<Rightarrow> Message list option" where
  "history_page k pt = map_option messages_page (find (\<lambda>v. videoId v = k) (videos pt))"

text \<open>
  The operations on the collection: the listing arriving with an array of rows; the user
  entering a URL and a title and the ingest answering with nothing happening between
  the request and the answer, so that the collection the handler saw when it was called
  is still the current one; and a deletion.
\<close>

datatype store_op =
    Hydrate "video_row list"
  | UpsertNew string string ingest_response
  | Remove string

fun run_op :: "store_op \<Rightarrow> Home \<Rightarrow> Home" where
  "run_op (Hydrate rows) st = fetchVideosFromDB (Ok (Rows rows)) st"
| "run_op (UpsertNew u t data) st = handleIngest (Ok data) (st\<lparr>urlInput := u, titleInput := t\<rparr>)"
| "run_op (Remove k) st = handleDelete k st"

fun run_ops :: "store_op list \<Rightarrow> Home \<Rightarrow> Home" where
  "run_ops [] st = st"
| "run_ops (op # ops) st = run_ops ops (run_op op st)"

text \<open>
  A sequence of these operations brings only new keys: each listing has pairwise distinct
  URLs, and each ingest that is sent answers with a key that no live session has.
\<close>

fun new_keys_only :: "store_op list \<Rightarrow> Home \<Rightarrow> bool" where
  "new_keys_only [] st = True"
| "new_keys_only (Hydrate rows # ops) st =
     (distinct (map url rows) \<and> new_keys_only ops (run_op (Hydrate rows) st))"
| "new_keys_only (UpsertNew u t data # ops) st =
     ((u = [] \<or> video_url data \<notin> set (keys st))
      \<and> new_keys_only ops (run_op (UpsertNew u t data) st))"
| "new_keys_only (Remove k # ops) st = new_keys_only ops (run_op (Remove k) st)"

text \<open>
  What the settled query appends: the answer, or the fixed text of the \<^verbatim>\<open>catch\<close> block.
\<close>

definition reply_of :: "string fetched \<Rightarrow> Message" where
  "reply_of r =
     \<lparr>role = Assistant,
      content = (case r of Ok response \<Rightarrow> response | _ \<Rightarrow> ''Error: Failed to get response.'')\<rparr>"

text \<open>
  What the settled query of the page with a transcript buffer appends to the transcript:
  the answer, or \<open>Error: \<close> followed by the message of what was thrown.
\<close>

definition reply_page_of :: "string fetched \<Rightarrow> Message" where
  "reply_page_of r =
     \<lparr>role = Assistant,
      content =
        (case r of
           Rejected e \<Rightarrow> ''Error: '' @ err_message e ''Failed to query''
         | NotOk stat body \<Rightarrow> ''Error: '' @ body
         | BadJson e \<Rightarrow> ''Error: '' @ err_message e ''Failed to query''
         | Ok response \<Rightarrow> response)\<rparr>"

section \<open>Example states\<close>

text \<open>
  Two sessions A and B, A active, a question typed with a space on each side
  (\<open>ex_home\<close>), and the state right after the question is sent (\<open>ex_home1\<close>); the
  same for the page with a transcript buffer (\<open>ex_page\<close>, \<open>ex_page1\<close>); one session
  \<open>v1\<close> with an empty history; a URL typed for an ingest, with two sessions
  (\<open>ex_ingest\<close>) and in the initial state (\<open>ex_typed\<close>).
\<close>

definition ex_A :: ChatSession where
  "ex_A = \<lparr>id' = ''A'', uniqueId = ''A'', title = ''first'', messages = []\<rparr>"

definition ex_B :: ChatSession where
  "ex_B = \<lparr>id' = ''B'', uniqueId = ''B'', title = ''second'',
           messages = [\<lparr>role = User, content = ''earlier''\<rparr>]\<rparr>"

definition ex_home :: Home where
  "ex_home = Home_init\<lparr>sessions := [ex_A, ex_B], activeSessionId := Some ''A'',
                       questionInput := '' What is this about? ''\<rparr>"

definition ex_rows :: "video_row list" where
  "ex_rows = [\<lparr>url = ''u1'', description = ''d1''\<rparr>, \<lparr>url = ''u2'', description = ''d2''\<rparr>]"

definition ex_data :: ingest_response where
  "ex_data = \<lparr>video_url = ''u'', video_description = None\<rparr>"

definition ex_home1 :: Home where
  "ex_home1 =
     Home_init\<lparr>sessions :=
                 [ex_A\<lparr>messages := [\<lparr>role = User, content = '' What is this about? ''\<rparr>]\<rparr>, ex_B],
               activeSessionId := Some ''A'', loading := True\<rparr>"

definition ex_um :: Message where
  "ex_um = \<lparr>role = User, content = '' What is this about? ''\<rparr>"

definition ex_VA :: VideoChat where
  "ex_VA = \<lparr>videoId = ''A'', title_page = ''first'', messages_page = []\<rparr>"

definition ex_VB :: VideoChat where
  "ex_VB = \<lparr>videoId = ''B'', title_page = ''second'',
            messages_page = [\<lparr>role = User, content = ''earlier''\<rparr>]\<rparr>"

definition ex_page :: Home_page where
  "ex_page =
     \<lparr>url_page = ''https://youtu.be/C'', loading_page = False, status = [],
      videos = [ex_VA, ex_VB], activeVideoId = Some ''A'',
      question = '' What is this about? '', currentMessages = [], alerts_page = []\<rparr>"

definition ex_page1 :: Home_page where
  "ex_page1 =
     ex_page\<lparr>currentMessages := [\<lparr>role = User, content = '' What is this about? ''\<rparr>],
             question := [], loading_page := True\<rparr>"

definition ex_v1 :: ChatSession where
  "ex_v1 = \<lparr>id' = ''v1'', uniqueId = ''v1'', title = ''Video 1'', messages = []\<rparr>"

definition ex_home_v1 :: Home where
  "ex_home_v1 = Home_init\<lparr>sessions := [ex_v1], activeSessionId := Some ''v1'',
                          questionInput := ''What is this about?''\<rparr>"

definition ex_page_v1 :: Home_page where
  "ex_page_v1 =
     \<lparr>url_page = [], loading_page = False, status = [],
      videos = [\<lparr>videoId = ''v1'', title_page = ''Video'', messages_page = []\<rparr>],
      activeVideoId = Some ''v1'', question = ''What is this about?'', currentMessages = [],
      alerts_page = []\<rparr>"

definition ex_ingest :: Home where
  "ex_ingest = Home_init\<lparr>sessions := [ex_A, ex_B], urlInput := ''https://youtu.be/C''\<rparr>"


definition ex_process :: process_response where
  "ex_process = \<lparr>video_id = ''C'', chunk_count = ''12''\<rparr>"

section \<open>Helper lemmas\<close>

lemma map_append_other:
  "k \<notin> set (map uniqueId xs) \<Longrightarrow>
   map (\<lambda>s. if uniqueId s = k then s\<lparr>messages := messages s @ [msg]\<rparr> else s) xs = xs"
  by (induction xs) auto

lemma addMessageToSession_absent:
  "uid \<notin> set (keys st) \<Longrightarrow> addMessageToSession uid msg st = st"
  by (simp add: addMessageToSession_def keys_def map_append_other)

lemma addMessageToSession_absent_funpow:
  "uid \<notin> set (keys st) \<Longrightarrow> (addMessageToSession uid msg ^^ n) st = st"
  by (induction n) (simp_all add: addMessageToSession_absent)

lemma keys_addMessageToSession: "keys (addMessageToSession uid msg st) = keys st"
  by (simp add: addMessageToSession_def keys_def comp_def)

lemma keys_handleDelete: "keys (handleDelete uid st) = filter (\<lambda>k. k \<noteq> uid) (keys st)"
  by (simp add: handleDelete_def keys_def Let_def filter_map comp_def)

lemma handleSend_settle_eq:
  "handleSend_settle c r st = (addMessageToSession (uniqueId c) (reply_of r) st)\<lparr>loading := False\<rparr>"
  by (cases r) (simp_all add: handleSend_settle_def handleSend_try_def reply_of_def)

lemma sessions_hydrate:
  "sessions (fetchVideosFromDB (Ok (Rows data)) st) =
   map (\<lambda>v. \<lparr>id' = url v, uniqueId = url v, title = description v, messages = []\<rparr>) data"
  by (simp add: fetchVideosFromDB_def fetchVideosFromDB_try_def)

lemma keys_hydrate: "keys (fetchVideosFromDB (Ok (Rows data)) st) = map url data"
  by (simp add: keys_def sessions_hydrate comp_def)

lemma sessions_handleIngest_Ok:
  "urlInput st \<noteq> [] \<Longrightarrow> sessions (handleIngest (Ok data) st) = newSession st data # sessions st"
  by (simp add: handleIngest_def handleIngest_begin_def handleIngest_settle_def
      handleIngest_try_def)

lemma sessions_handleIngest_settle_Ok:
  "sessions (handleIngest_settle snap (Ok data) st) = newSession snap data # sessions snap"
  by (simp add: handleIngest_settle_def handleIngest_try_def)

text \<open>
  The answer of an ingest replaces the collection by the one the handler saw when it was
  called: with A and B listed, an ingest sent, A deleted, and the answer naming A, the
  key A is there twice.
\<close>

lemma ingest_answer_on_changed_collection:
  "''A'' \<notin> set (keys (handleDelete ''A'' (fst (handleIngest_begin ex_ingest))))"
  "keys (handleIngest_settle ex_ingest (Ok \<lparr>video_url = ''A'', video_description = None\<rparr>)
          (handleDelete ''A'' (fst (handleIngest_begin ex_ingest)))) = [''A'', ''A'', ''B'']"
  by (simp add: keys_handleDelete)
    (simp add: keys_def sessions_handleIngest_settle_Ok newSession_def ex_ingest_def ex_A_def
      ex_B_def Home_init_def)

lemma sessions_handleIngest_empty: "urlInput st = [] \<Longrightarrow> handleIngest r st = st"
  by (simp add: handleIngest_def handleIngest_begin_def)

lemma keys_upsert:
  "keys (handleIngest (Ok data) (st\<lparr>urlInput := u, titleInput := t\<rparr>)) =
   (if u = [] then keys st else video_url data # keys st)"
  by (simp add: keys_def sessions_handleIngest_Ok sessions_handleIngest_empty newSession_def)

lemma distinct_run_ops:
  "distinct (keys st) \<Longrightarrow> new_keys_only ops st \<Longrightarrow> distinct (keys (run_ops ops st))"
proof (induction ops arbitrary: st)
  case Nil
  then show ?case by simp
next
  case (Cons op ops)
  show ?case
  proof (cases op)
    case (Hydrate rows)
    with Cons.prems have "distinct (keys (run_op op st))" "new_keys_only ops (run_op op st)"
      by (simp_all add: keys_hydrate)
    then show ?thesis using Cons.IH by simp
  next
    case (UpsertNew u t data)
    with Cons.prems have "distinct (keys (run_op op st))" "new_keys_only ops (run_op op st)"
      by (auto simp: keys_upsert)
    then show ?thesis using Cons.IH by simp
  next
    case (Remove k)
    with Cons.prems have "distinct (keys (run_op op st))" "new_keys_only ops (run_op op st)"
      by (simp_all add: keys_handleDelete)
    then show ?thesis using Cons.IH by simp
  qed
qed

lemma keys_Home_init: "keys Home_init = []"
  by (simp add: keys_def Home_init_def)

lemma find_append_msg:
  "find (\<lambda>s. uniqueId s = k)
     (map (\<lambda>s. if uniqueId s = uid then s\<lparr>messages := messages s @ [msg]\<rparr> else s) xs) =
   map_option (\<lambda>s. if uniqueId s = uid then s\<lparr>messages := messages s @ [msg]\<rparr> else s)
     (find (\<lambda>s. uniqueId s = k) xs)"
  by (induction xs) auto

lemma history_addMessageToSession:
  "history k (addMessageToSession uid msg st) =
   (if k = uid then map_option (\<lambda>h. h @ [msg]) (history k st) else history k st)"
proof (cases "find (\<lambda>s. uniqueId s = k) (sessions st)")
  case None
  then show ?thesis
    by (auto simp: history_def addMessageToSession_def find_append_msg)
next
  case (Some s)
  then have "uniqueId s = k"
    by (auto simp: find_Some_iff)
  with Some show ?thesis
    by (auto simp: history_def addMessageToSession_def find_append_msg)
qed

lemma history_loading [simp]: "history k (st\<lparr>loading := b\<rparr>) = history k st"
  by (simp add: history_def)

lemma history_questionInput [simp]: "history k (st\<lparr>questionInput := q\<rparr>) = history k st"
  by (simp add: history_def)

lemma activeChat_history:
  "activeChat st = Some c \<Longrightarrow> history (uniqueId c) st = Some (messages c)"
  by (auto simp: activeChat_def history_def find_Some_iff split: option.splits)

lemma handleSend_begin_eq:
  "handleSend_begin st =
   (case activeChat st of
      None \<Rightarrow> (st, None)
    | Some c \<Rightarrow>
        if trim (questionInput st) = [] then (st, None)
        else ((addMessageToSession (uniqueId c) \<lparr>role = User, content = questionInput st\<rparr>
                 (st\<lparr>questionInput := []\<rparr>))\<lparr>loading := True\<rparr>,
              Some (c, Query (questionInput st) (id' c) 8)))"
  by (simp add: handleSend_begin_def Let_def split: option.splits)

lemma handleSend_begin_SomeD:
  assumes "handleSend_begin st = (st1, Some (c, req))"
  shows "activeChat st = Some c" and "trim (questionInput st) \<noteq> []"
    and "req = Query (questionInput st) (id' c) 8"
    and "st1 = (addMessageToSession (uniqueId c) \<lparr>role = User, content = questionInput st\<rparr>
                 (st\<lparr>questionInput := []\<rparr>))\<lparr>loading := True\<rparr>"
  using assms by (auto simp: handleSend_begin_eq split: option.splits if_splits)

lemma currentMessages_handleSend_page_settle:
  "currentMessages (handleSend_page_settle cl r pt) = currentMessages pt @ [reply_page_of r]"
  by (cases r)
    (simp_all add: handleSend_page_settle_def handleSend_page_try_def reply_page_of_def Let_def
      err_message_def)

lemma videos_handleSend_page_settle_Ok:
  "videos (handleSend_page_settle (um, vid) (Ok response) pt) =
   map (\<lambda>v. if videoId v = vid
             then v\<lparr>messages_page :=
                      messages_page v @ [um, \<lparr>role = Assistant, content = response\<rparr>]\<rparr>
             else v) (videos pt)"
  by (simp add: handleSend_page_settle_def handleSend_page_try_def Let_def)

lemma videos_handleSend_page_settle_failed:
  "videos (handleSend_page_settle cl (Rejected e) pt) = videos pt"
  "videos (handleSend_page_settle cl (NotOk stat body) pt) = videos pt"
  "videos (handleSend_page_settle cl (BadJson e) pt) = videos pt"
  by (simp_all add: handleSend_page_settle_def handleSend_page_try_def)

lemma activeVideoId_handleSend_page_settle:
  "activeVideoId (handleSend_page_settle cl r pt) = activeVideoId pt"
  by (cases r)
    (simp_all add: handleSend_page_settle_def handleSend_page_try_def Let_def)

lemma handleSend_page_begin_SomeD:
  assumes "handleSend_page_begin pt = (pt1, Some ((um, vid), req))"
  shows "activeVideoId pt = Some vid" and "vid \<noteq> []" and "trim (question pt) \<noteq> []"
    and "um = \<lparr>role = User, content = question pt\<rparr>"
    and "req = QueryById (question pt) vid 5"
    and "pt1 = pt\<lparr>currentMessages := currentMessages pt @ [um], question := [],
                   loading_page := True\<rparr>"
  using assms by (auto simp: handleSend_page_begin_def Let_def split: option.splits if_splits)

lemma trim_ex: "trim '' What is this about? '' = ''What is this about?''"
  by (simp add: trim_def isWhiteSpace_def)

lemma handleSend_begin_ex:
  "handleSend_begin ex_home = (ex_home1, Some (ex_A, Query '' What is this about? '' ''A'' 8))"
  by (simp add: handleSend_begin_eq activeChat_def addMessageToSession_def trim_ex
      ex_home_def ex_home1_def ex_A_def ex_B_def Home_init_def)

lemma handleSend_page_begin_ex:
  "handleSend_page_begin ex_page =
   (ex_page1, Some ((ex_um, ''A''), QueryById '' What is this about? '' ''A'' 5))"
  by (simp add: handleSend_page_begin_def trim_ex ex_page_def ex_page1_def ex_um_def Let_def)

lemma find_append_msgs_page:
  "find (\<lambda>v. videoId v = k)
     (map (\<lambda>v. if videoId v = vid then v\<lparr>messages_page := messages_page v @ ms\<rparr> else v) xs) =
   map_option (\<lambda>v. if videoId v = vid then v\<lparr>messages_page := messages_page v @ ms\<rparr> else v)
     (find (\<lambda>v. videoId v = k) xs)"
  by (induction xs) auto

lemma history_page_settle_Ok:
  "history_page vid (handleSend_page_settle (um, vid) (Ok response) pt) =
   map_option (\<lambda>h. h @ [um, \<lparr>role = Assistant, content = response\<rparr>]) (history_page vid pt)"
proof (cases "find (\<lambda>v. videoId v = vid) (videos pt)")
  case None
  then show ?thesis
    by (simp add: history_page_def videos_handleSend_page_settle_Ok find_append_msgs_page)
next
  case (Some v)
  then have "videoId v = vid"
    by (auto simp: find_Some_iff)
  with Some show ?thesis
    by (simp add: history_page_def videos_handleSend_page_settle_Ok find_append_msgs_page)
qed

lemma handleSend_page_begin_eq:
  "handleSend_page_begin pt =
   (case activeVideoId pt of
      None \<Rightarrow> (pt, None)
    | Some vid \<Rightarrow>
        if trim (question pt) = [] \<or> vid = [] then (pt, None)
        else (pt\<lparr>currentMessages := currentMessages pt @ [\<lparr>role = User, content = question pt\<rparr>],
                 question := [], loading_page := True\<rparr>,
              Some ((\<lparr>role = User, content = question pt\<rparr>, vid),
                    QueryById (question pt) vid 5)))"
  by (simp add: handleSend_page_begin_def Let_def split: option.splits)


lemma trim_ex_v1: "trim ''What is this about?'' = ''What is this about?''"
  by (simp add: trim_def isWhiteSpace_def)

lemma handleIngest_settle_failed:
  "handleIngest_settle snap (Rejected (Error m)) st =
     st\<lparr>alerts := alerts st @ [''Error: '' @ m], loading := False\<rparr>"
  "handleIngest_settle snap (NotOk stat body) st =
     st\<lparr>alerts := alerts st @ [''Error: '' @ body], loading := False\<rparr>"
  by (simp_all add: handleIngest_settle_def handleIngest_try_def err_message_def)

lemma handleProcess_settle_failed:
  "handleProcess_settle psnap (Rejected (Error m)) pt =
     pt\<lparr>status := ''Error: '' @ m, loading_page := False\<rparr>"
  "handleProcess_settle psnap (NotOk stat body) pt =
     pt\<lparr>status := ''Error: '' @ body, loading_page := False\<rparr>"
  by (simp_all add: handleProcess_settle_def handleProcess_try_def err_message_def)

section \<open>The claims\<close>

text \<open>
  C1, amended. In the page with sessions, the session captured when the query was sent is
  the one that was active then, and the answer or the error text is appended to the
  history of the sessions with the captured key and to no other history, whatever the
  state is when the call settles (another session active, the captured one deleted); the
  active pointer is not touched. In the page with a transcript buffer, an answer is
  stored, after the question, in the history of the videos with the captured id and in
  no other history, an error text is stored in no history, and both are appended to the
  transcript on screen, whichever video is active when the call settles.
\<close>

theorem reply_routed_by_captured_key:
  "(handleSend_begin st0 = (st1, Some (c, req)) \<longrightarrow>
      activeChat st0 = Some c
    \<and> sessions (handleSend_settle c r st) =
        map (\<lambda>s. if uniqueId s = uniqueId c
                  then s\<lparr>messages := messages s @ [reply_of r]\<rparr> else s) (sessions st)
    \<and> (\<forall>k. k \<noteq> uniqueId c \<longrightarrow> history k (handleSend_settle c r st) = history k st)
    \<and> history (uniqueId c) (handleSend_settle c r st) =
        map_option (\<lambda>h. h @ [reply_of r]) (history (uniqueId c) st)
    \<and> activeSessionId (handleSend_settle c r st) = activeSessionId st)
   \<and> (handleSend_page_begin pt0 = (pt1, Some ((um, vid), req')) \<longrightarrow>
      activeVideoId pt0 = Some vid
    \<and> videos (handleSend_page_settle (um, vid) (Ok response) pt) =
        map (\<lambda>v. if videoId v = vid
                  then v\<lparr>messages_page :=
                           messages_page v @ [um, \<lparr>role = Assistant, content = response\<rparr>]\<rparr>
                  else v) (videos pt)
    \<and> videos (handleSend_page_settle (um, vid) (Rejected e) pt) = videos pt
    \<and> videos (handleSend_page_settle (um, vid) (NotOk stat body) pt) = videos pt
    \<and> videos (handleSend_page_settle (um, vid) (BadJson e) pt) = videos pt
    \<and> currentMessages (handleSend_page_settle (um, vid) r pt) =
        currentMessages pt @ [reply_page_of r]
    \<and> activeVideoId (handleSend_page_settle (um, vid) r pt) = activeVideoId pt)"
proof -
  have a: "sessions (handleSend_settle c r st) =
        map (\<lambda>s. if uniqueId s = uniqueId c
                  then s\<lparr>messages := messages s @ [reply_of r]\<rparr> else s) (sessions st)"
    by (simp add: handleSend_settle_eq addMessageToSession_def)
  have b: "history k (handleSend_settle c r st) =
      (if k = uniqueId c then map_option (\<lambda>h. h @ [reply_of r]) (history k st) else history k st)"
    for k
    by (simp add: handleSend_settle_eq history_addMessageToSession)
  have c: "activeSessionId (handleSend_settle c r st) = activeSessionId st"
    by (simp add: handleSend_settle_eq addMessageToSession_def)
  show ?thesis
    using a b c
    by (auto simp: currentMessages_handleSend_page_settle videos_handleSend_page_settle_Ok
        videos_handleSend_page_settle_failed activeVideoId_handleSend_page_settle
        dest: handleSend_begin_SomeD(1) handleSend_page_begin_SomeD(1))
qed

theorem reply_routed_by_captured_key_witness:
  "handleSend_begin ex_home = (ex_home1, Some (ex_A, Query '' What is this about? '' ''A'' 8))
   \<and> activeChat ex_home = Some ex_A
   \<and> sessions (handleSend_settle ex_A (Ok ''A cooking tutorial.'')
        (setActiveSessionId (Some ''B'') ex_home1)) =
       [ex_A\<lparr>messages := [ex_um, \<lparr>role = Assistant, content = ''A cooking tutorial.''\<rparr>]\<rparr>, ex_B]
   \<and> activeSessionId (handleSend_settle ex_A (Ok ''A cooking tutorial.'')
        (setActiveSessionId (Some ''B'') ex_home1)) = Some ''B''
   \<and> handleSend_page_begin ex_page =
       (ex_page1, Some ((ex_um, ''A''), QueryById '' What is this about? '' ''A'' 5))
   \<and> videos (handleSend_page_settle (ex_um, ''A'') (Ok ''A cooking tutorial.'')
        (onClick_video ex_VB ex_page1)) =
       [ex_VA\<lparr>messages_page := [ex_um, \<lparr>role = Assistant, content = ''A cooking tutorial.''\<rparr>]\<rparr>,
        ex_VB]"
  using reply_routed_by_captured_key
    [of ex_home ex_home1 ex_A "Query '' What is this about? '' ''A'' 8" "Ok ''A cooking tutorial.''"
        "setActiveSessionId (Some ''B'') ex_home1" ex_page ex_page1 ex_um "''A''"
        "QueryById '' What is this about? '' ''A'' 5" "''A cooking tutorial.''"
        "onClick_video ex_VB ex_page1"]
    handleSend_begin_ex handleSend_page_begin_ex
  by (simp add: reply_of_def setActiveSessionId_def onClick_video_def ex_home1_def ex_page1_def
      ex_page_def ex_A_def ex_B_def ex_VA_def ex_VB_def ex_um_def Home_init_def)

text \<open>
  C1, as stated, fails in the page with a transcript buffer. A query is sent for video A,
  the user opens video B, and the fetch rejects: the error text is in no stored history
  (that of A is still empty) and is appended to the transcript on screen, which is now
  that of B.
\<close>

theorem page_error_reply_counterexample:
  "handleSend_page_begin ex_page =
     (ex_page1, Some ((ex_um, ''A''), QueryById '' What is this about? '' ''A'' 5))
   \<and> history_page ''A''
        (handleSend_page_settle (ex_um, ''A'') (Rejected (Error ''Failed to fetch''))
          (onClick_video ex_VB ex_page1)) = Some []
   \<and> activeVideoId
        (handleSend_page_settle (ex_um, ''A'') (Rejected (Error ''Failed to fetch''))
          (onClick_video ex_VB ex_page1)) = Some ''B''
   \<and> currentMessages
        (handleSend_page_settle (ex_um, ''A'') (Rejected (Error ''Failed to fetch''))
          (onClick_video ex_VB ex_page1)) =
       [\<lparr>role = User, content = ''earlier''\<rparr>,
        \<lparr>role = Assistant, content = ''Error: Failed to fetch''\<rparr>]"
  using handleSend_page_begin_ex
  by (simp add: history_page_def videos_handleSend_page_settle_failed
      activeVideoId_handleSend_page_settle currentMessages_handleSend_page_settle
      reply_page_of_def err_message_def onClick_video_def ex_page1_def ex_page_def ex_VA_def
      ex_VB_def)

text \<open>
  C2. \<open>addMessageToSession\<close> with a key that no live session has leaves the whole
  state as it is, however often it is called. In the race where the session of a pending
  query is deleted before the answer settles, the settled handler changes nothing but the
  busy flag: no session with the deleted key comes back and no other session is touched.
  The same holds in any later state in which the key is still not live, for instance
  after another session was created and made active.
\<close>

theorem appendMessage_missing_key_noop:
  "(uid \<notin> set (keys st) \<longrightarrow>
      addMessageToSession uid msg st = st
    \<and> (addMessageToSession uid msg ^^ n) st = st
    \<and> (uniqueId c = uid \<longrightarrow> handleSend_settle c r st = st\<lparr>loading := False\<rparr>))
   \<and> uniqueId c \<notin> set (keys (handleDelete (uniqueId c) st'))
   \<and> handleSend_settle c r (handleDelete (uniqueId c) st') =
       (handleDelete (uniqueId c) st')\<lparr>loading := False\<rparr>"
proof -
  have gone: "uniqueId c \<notin> set (keys (handleDelete (uniqueId c) st'))"
    by (simp add: keys_handleDelete)
  have settle: "handleSend_settle c r s = s\<lparr>loading := False\<rparr>"
    if "uniqueId c \<notin> set (keys s)" for s
    using that by (simp add: handleSend_settle_eq addMessageToSession_absent)
  show ?thesis
    using gone settle [of st] settle [OF gone]
    by (auto simp: addMessageToSession_absent addMessageToSession_absent_funpow)
qed

theorem appendMessage_missing_key_noop_witness:
  "''A'' \<notin> set (keys (handleDelete ''A'' ex_home))
   \<and> addMessageToSession ''A'' \<lparr>role = Assistant, content = ''late''\<rparr> (handleDelete ''A'' ex_home)
       = handleDelete ''A'' ex_home
   \<and> sessions (handleSend_settle ex_A (Ok ''late'') (handleDelete ''A'' ex_home)) = [ex_B]"
  using appendMessage_missing_key_noop
    [of "''A''" "handleDelete ''A'' ex_home" "\<lparr>role = Assistant, content = ''late''\<rparr>" 1 ex_A
        "Ok ''late''" ex_home]
  by (simp add: keys_handleDelete handleDelete_def ex_home_def Home_init_def ex_A_def ex_B_def)

text \<open>
  C3, amended. Starting from the empty collection, a sequence of listings, ingests and
  deletions, each ingest answered with nothing changing the collection between its
  request and its answer, in which every listing has pairwise distinct URLs and every
  ingest answers with a key that no live session has, leaves the keys pairwise distinct;
  a deletion never breaks distinctness, and neither does the answer of an ingest with
  such a key when the collection is still the one the handler saw when it was called. An
  ingest that is sent and succeeds always inserts its session at the front, whether or
  not the key is already there: there is no failure.
\<close>

theorem distinct_keys_when_new:
  "(new_keys_only ops Home_init \<longrightarrow> distinct (keys (run_ops ops Home_init)))
   \<and> (distinct (keys st) \<longrightarrow> distinct (keys (run_op (Remove k) st)))
   \<and> (distinct (keys st) \<and> sessions st = sessions snap \<and> video_url data \<notin> set (keys st) \<longrightarrow>
        distinct (keys (handleIngest_settle snap (Ok data) st)))
   \<and> (u \<noteq> [] \<longrightarrow>
        sessions (run_op (UpsertNew u t data) st) =
          newSession (st\<lparr>urlInput := u, titleInput := t\<rparr>) data # sessions st)"
proof -
  have init: "distinct (keys Home_init)" by (simp add: keys_Home_init)
  have settle: "distinct (keys (handleIngest_settle snap (Ok data) st))"
    if "distinct (keys st)" "sessions st = sessions snap" "video_url data \<notin> set (keys st)"
    using that by (simp add: keys_def sessions_handleIngest_settle_Ok newSession_def)
  show ?thesis
    using init settle
    by (auto simp: distinct_run_ops keys_handleDelete sessions_handleIngest_Ok)
qed

theorem distinct_keys_when_new_witness:
  "new_keys_only [Hydrate ex_rows, UpsertNew ''u'' [] ex_data, Remove ''u1''] Home_init
   \<and> keys (run_ops [Hydrate ex_rows, UpsertNew ''u'' [] ex_data, Remove ''u1''] Home_init) = [''u'', ''u2'']
   \<and> distinct [''u'', ''u2'']
   \<and> keys (fst (handleIngest_begin ex_ingest)) = [''A'', ''B'']
   \<and> sessions (fst (handleIngest_begin ex_ingest)) = sessions ex_ingest
   \<and> video_url ex_data = ''u''
   \<and> keys (handleIngest_settle ex_ingest (Ok ex_data) (fst (handleIngest_begin ex_ingest))) =
       [''u'', ''A'', ''B'']
   \<and> distinct [''u'', ''A'', ''B'']"
proof -
  have a: "keys (fst (handleIngest_begin ex_ingest)) = [''A'', ''B'']"
    "sessions (fst (handleIngest_begin ex_ingest)) = sessions ex_ingest"
    "video_url ex_data = ''u''"
    by (simp_all add: keys_def handleIngest_begin_def ex_ingest_def ex_A_def ex_B_def ex_data_def
        Home_init_def)
  have b: "keys (handleIngest_settle ex_ingest (Ok ex_data) (fst (handleIngest_begin ex_ingest))) =
       [''u'', ''A'', ''B'']"
    by (simp add: keys_def sessions_handleIngest_settle_Ok newSession_def ex_ingest_def ex_A_def
        ex_B_def ex_data_def Home_init_def)
  show ?thesis
    using distinct_keys_when_new
      [of "[Hydrate ex_rows, UpsertNew ''u'' [] ex_data, Remove ''u1'']"
          "fst (handleIngest_begin ex_ingest)" "''u1''" ex_ingest ex_data "''u''" "[]"]
      a b
    by (simp add: keys_hydrate keys_upsert keys_handleDelete keys_Home_init ex_rows_def
        ex_data_def)
qed

text \<open>
  C3, as stated, fails: the page has no duplicate-key check. Two ingests that answer with
  the same \<^verbatim>\<open>video_url\<close> leave two sessions with the same key, and the second one
  is inserted like the first.
\<close>

theorem duplicate_key_counterexample:
  "keys (run_ops [UpsertNew ''u'' [] ex_data, UpsertNew ''u'' [] ex_data] Home_init) = [''u'', ''u'']
   \<and> \<not> distinct (keys (run_ops [UpsertNew ''u'' [] ex_data, UpsertNew ''u'' [] ex_data] Home_init))"
  by (simp add: keys_upsert keys_Home_init ex_data_def)

text \<open>
  C4, amended. In the page with sessions, sending a question that is not blank while a
  session is active appends the user message to that session's history before the
  request goes out, and the answer settling next appends the assistant message: the
  history has grown by the two, in that order. In the page with a transcript buffer, the
  user message is appended at once to the transcript on screen only, the stored
  histories being left as they are; when the answer settles next, the transcript has
  grown by the two messages and the stored history of the video by the same two at once.
\<close>

theorem send_appends_user_then_assistant:
  "(activeChat st = Some c \<and> trim (questionInput st) \<noteq> [] \<longrightarrow>
      snd (handleSend_begin st) = Some (c, Query (questionInput st) (id' c) 8)
    \<and> history (uniqueId c) st = Some (messages c)
    \<and> history (uniqueId c) (fst (handleSend_begin st)) =
        Some (messages c @ [\<lparr>role = User, content = questionInput st\<rparr>])
    \<and> history (uniqueId c) (handleSend_settle c (Ok response) (fst (handleSend_begin st))) =
        Some (messages c @ [\<lparr>role = User, content = questionInput st\<rparr>,
                            \<lparr>role = Assistant, content = response\<rparr>]))
   \<and> (activeVideoId pt = Some vid \<and> vid \<noteq> [] \<and> trim (question pt) \<noteq> [] \<longrightarrow>
      snd (handleSend_page_begin pt) =
        Some ((\<lparr>role = User, content = question pt\<rparr>, vid), QueryById (question pt) vid 5)
    \<and> videos (fst (handleSend_page_begin pt)) = videos pt
    \<and> currentMessages (fst (handleSend_page_begin pt)) =
        currentMessages pt @ [\<lparr>role = User, content = question pt\<rparr>]
    \<and> currentMessages
        (handleSend_page_settle (\<lparr>role = User, content = question pt\<rparr>, vid) (Ok response)
          (fst (handleSend_page_begin pt))) =
        currentMessages pt @ [\<lparr>role = User, content = question pt\<rparr>,
                              \<lparr>role = Assistant, content = response\<rparr>]
    \<and> history_page vid
        (handleSend_page_settle (\<lparr>role = User, content = question pt\<rparr>, vid) (Ok response)
          (fst (handleSend_page_begin pt))) =
        map_option (\<lambda>h. h @ [\<lparr>role = User, content = question pt\<rparr>,
                               \<lparr>role = Assistant, content = response\<rparr>])
          (history_page vid pt))"
proof -
  have a: "history (uniqueId c) (fst (handleSend_begin st)) =
        Some (messages c @ [\<lparr>role = User, content = questionInput st\<rparr>])"
    and b: "history (uniqueId c) (handleSend_settle c (Ok response) (fst (handleSend_begin st))) =
        Some (messages c @ [\<lparr>role = User, content = questionInput st\<rparr>,
                            \<lparr>role = Assistant, content = response\<rparr>])"
    and c: "snd (handleSend_begin st) = Some (c, Query (questionInput st) (id' c) 8)"
    if "activeChat st = Some c" "trim (questionInput st) \<noteq> []"
    using that activeChat_history [OF that(1)]
    by (simp_all add: handleSend_begin_eq handleSend_settle_eq history_addMessageToSession
        reply_of_def)
  have d: "history_page vid
        (handleSend_page_settle (\<lparr>role = User, content = question pt\<rparr>, vid) (Ok response)
          (fst (handleSend_page_begin pt))) =
        map_option (\<lambda>h. h @ [\<lparr>role = User, content = question pt\<rparr>,
                               \<lparr>role = Assistant, content = response\<rparr>])
          (history_page vid pt)"
    if "activeVideoId pt = Some vid" "vid \<noteq> []" "trim (question pt) \<noteq> []"
    using that by (simp add: history_page_settle_Ok) (simp add: handleSend_page_begin_eq history_page_def)
  show ?thesis
    using a b c d
    by (auto simp: activeChat_history)
      (simp_all add: handleSend_page_begin_eq currentMessages_handleSend_page_settle
        reply_page_of_def)
qed

theorem send_appends_user_then_assistant_witness:
  "activeChat ex_home_v1 = Some ex_v1
   \<and> trim (questionInput ex_home_v1) = ''What is this about?''
   \<and> history ''v1'' (fst (handleSend_begin ex_home_v1)) =
       Some [\<lparr>role = User, content = ''What is this about?''\<rparr>]
   \<and> history ''v1''
        (handleSend_settle ex_v1 (Ok ''A cooking tutorial.'') (fst (handleSend_begin ex_home_v1))) =
       Some [\<lparr>role = User, content = ''What is this about?''\<rparr>,
             \<lparr>role = Assistant, content = ''A cooking tutorial.''\<rparr>]
   \<and> activeVideoId ex_page_v1 = Some ''v1''
   \<and> trim (question ex_page_v1) = ''What is this about?''
   \<and> currentMessages (fst (handleSend_page_begin ex_page_v1)) =
       [\<lparr>role = User, content = ''What is this about?''\<rparr>]
   \<and> history_page ''v1''
        (handleSend_page_settle (\<lparr>role = User, content = ''What is this about?''\<rparr>, ''v1'')
          (Ok ''A cooking tutorial.'') (fst (handleSend_page_begin ex_page_v1))) =
       Some [\<lparr>role = User, content = ''What is this about?''\<rparr>,
             \<lparr>role = Assistant, content = ''A cooking tutorial.''\<rparr>]"
  using send_appends_user_then_assistant
    [of ex_home_v1 ex_v1 "''A cooking tutorial.''" ex_page_v1 "''v1''"]
  by (simp add: trim_ex_v1 activeChat_def history_page_def ex_home_v1_def ex_page_v1_def
      ex_v1_def Home_init_def)

text \<open>
  C4, as stated, fails in the page with a transcript buffer: right after the question is
  sent, the stored history of the active video is still empty; the user message is in
  the transcript on screen only.
\<close>

theorem page_history_after_send_counterexample:
  "snd (handleSend_page_begin ex_page_v1) =
     Some ((\<lparr>role = User, content = ''What is this about?''\<rparr>, ''v1''),
           QueryById ''What is this about?'' ''v1'' 5)
   \<and> history_page ''v1'' (fst (handleSend_page_begin ex_page_v1)) = Some []
   \<and> currentMessages (fst (handleSend_page_begin ex_page_v1)) =
       [\<lparr>role = User, content = ''What is this about?''\<rparr>]"
  by (simp add: handleSend_page_begin_eq trim_ex_v1 history_page_def ex_page_v1_def)

text \<open>
  C5, amended. When the ingest call fails (the fetch rejects with an error, or the status
  is not a success), both pages leave the collection and the active pointer as they
  were and clear the busy flag; sending the request had touched neither. The page with
  sessions then shows one \<^verbatim>\<open>alert\<close> with the text \<open>Error: \<close> followed by the error
  text, and changes nothing else. The page with a transcript buffer shows no alert: it
  writes the same text to its status line.
\<close>

theorem ingest_failure_leaves_store:
  "handleIngest_settle snap (NotOk stat body) st =
     st\<lparr>alerts := alerts st @ [''Error: '' @ body], loading := False\<rparr>
   \<and> handleIngest_settle snap (Rejected (Error m)) st =
     st\<lparr>alerts := alerts st @ [''Error: '' @ m], loading := False\<rparr>
   \<and> sessions (fst (handleIngest_begin st)) = sessions st
   \<and> activeSessionId (fst (handleIngest_begin st)) = activeSessionId st
   \<and> handleProcess_settle psnap (NotOk stat body) pt =
     pt\<lparr>status := ''Error: '' @ body, loading_page := False\<rparr>
   \<and> handleProcess_settle psnap (Rejected (Error m)) pt =
     pt\<lparr>status := ''Error: '' @ m, loading_page := False\<rparr>
   \<and> videos (fst (handleProcess_begin pt)) = videos pt
   \<and> activeVideoId (fst (handleProcess_begin pt)) = activeVideoId pt"
  by (simp add: handleIngest_settle_failed handleProcess_settle_failed)
    (simp add: handleIngest_begin_def handleProcess_begin_def)

theorem ingest_failure_leaves_store_witness:
  "sessions (handleIngest (NotOk ''Bad Request'' ''no such video'') ex_ingest) = [ex_A, ex_B]
   \<and> activeSessionId (handleIngest (NotOk ''Bad Request'' ''no such video'') ex_ingest) = None
   \<and> alerts (handleIngest (NotOk ''Bad Request'' ''no such video'') ex_ingest) =
       [''Error: no such video'']
   \<and> loading (handleIngest (NotOk ''Bad Request'' ''no such video'') ex_ingest) = False"
  using ingest_failure_leaves_store
    [of ex_ingest "''Bad Request''" "''no such video''"
        "fst (handleIngest_begin ex_ingest)"]
  by (simp add: handleIngest_def handleIngest_begin_def ex_ingest_def Home_init_def)

text \<open>
  C5, as stated, fails in the page with a transcript buffer: after a failed ingest no
  alert has been shown; the error text is in the status line.
\<close>

theorem page_ingest_failure_counterexample:
  "alerts_page (handleProcess (NotOk ''Bad Request'' ''no such video'') ex_page) = []
   \<and> status (handleProcess (NotOk ''Bad Request'' ''no such video'') ex_page) =
       ''Error: no such video''
   \<and> loading_page (handleProcess (NotOk ''Bad Request'' ''no such video'') ex_page) = False"
  by (simp add: handleProcess_def handleProcess_begin_def handleProcess_settle_failed ex_page_def)




text \<open>
  C7. A listing that is an array of rows replaces the collection by one session per row,
  in the order of the rows: \<open>id'\<close> and \<open>uniqueId\<close> are the row's \<open>url\<close>, the title is
  its \<open>description\<close> and the history is empty. The active pointer is not touched.
\<close>

theorem hydration_maps_rows_in_order:
  "length (sessions (fetchVideosFromDB (Ok (Rows data)) st)) = length data
   \<and> (\<forall>i < length data.
        sessions (fetchVideosFromDB (Ok (Rows data)) st) ! i =
          \<lparr>id' = url (data ! i), uniqueId = url (data ! i), title = description (data ! i),
           messages = []\<rparr>)
   \<and> activeSessionId (fetchVideosFromDB (Ok (Rows data)) st) = activeSessionId st"
  by (simp add: sessions_hydrate) (simp add: fetchVideosFromDB_def fetchVideosFromDB_try_def)

theorem hydration_maps_rows_in_order_witness:
  "sessions (fetchVideosFromDB (Ok (Rows ex_rows)) ex_home) =
     [\<lparr>id' = ''u1'', uniqueId = ''u1'', title = ''d1'', messages = []\<rparr>,
      \<lparr>id' = ''u2'', uniqueId = ''u2'', title = ''d2'', messages = []\<rparr>]"
  using hydration_maps_rows_in_order [of ex_rows ex_home]
  by (simp add: sessions_hydrate ex_rows_def)

text \<open>
  C8, amended. In the page with sessions, a successful ingest puts the new session at the
  front of the collection, the sessions that were there following in their order, when
  the collection is the one the handler saw when it was called; a call that nothing
  interrupts is such a case. In the page with a transcript buffer, the new session is
  put at the end, after the sessions that were there, in their order.
\<close>

theorem ingest_inserts_new_session:
  "(sessions st = sessions snap \<longrightarrow>
      sessions (handleIngest_settle snap (Ok data) st) = newSession snap data # sessions st)
   \<and> (urlInput st \<noteq> [] \<and> video_url data \<notin> set (keys st) \<longrightarrow>
      sessions (handleIngest (Ok data) st) = newSession st data # sessions st)
   \<and> videos (handleProcess_settle psnap (Ok pdata) pt) =
       videos pt @ [\<lparr>videoId = video_id pdata,
                     title_page = or_else (split_pop (url_page psnap)) ''Video'',
                     messages_page = []\<rparr>]"
  by (simp add: sessions_handleIngest_Ok sessions_handleIngest_settle_Ok)
    (simp add: handleProcess_settle_def handleProcess_try_def)

theorem ingest_inserts_new_session_witness:
  "urlInput ex_ingest = ''https://youtu.be/C''
   \<and> ''C'' \<notin> set (keys ex_ingest)
   \<and> sessions (handleIngest (Ok \<lparr>video_url = ''C'', video_description = None\<rparr>) ex_ingest) =
       [\<lparr>id' = ''C'', uniqueId = ''C'', title = ''Video 3'', messages = []\<rparr>, ex_A, ex_B]"
  using ingest_inserts_new_session
    [of ex_ingest ex_ingest "\<lparr>video_url = ''C'', video_description = None\<rparr>"]
  by (simp add: keys_def newSession_def placeholder_def or_else_def digits.simps ex_ingest_def
      ex_A_def ex_B_def Home_init_def)

text \<open>
  C8, as stated, fails in the page with a transcript buffer: the new session C comes
  last, after A and B.
\<close>

theorem page_ingest_appends_last_counterexample:
  "videos (handleProcess (Ok ex_process) ex_page) =
     [ex_VA, ex_VB, \<lparr>videoId = ''C'', title_page = ''C'', messages_page = []\<rparr>]"
  by (simp add: handleProcess_def handleProcess_begin_def handleProcess_settle_def
      handleProcess_try_def split_pop_def or_else_def ex_page_def ex_process_def)

text \<open>
  C9. After \<open>handleDelete uid\<close> no session has the key \<open>uid\<close> and the other sessions
  are kept in their order; the active pointer is cleared when it was \<open>uid\<close> and is left
  as it was otherwise.
\<close>

theorem remove_deletes_and_clears_active:
  "uid \<notin> set (keys (handleDelete uid st))
   \<and> sessions (handleDelete uid st) = filter (\<lambda>s. uniqueId s \<noteq> uid) (sessions st)
   \<and> (activeSessionId st = Some uid \<longrightarrow> activeSessionId (handleDelete uid st) = None)
   \<and> (activeSessionId st \<noteq> Some uid \<longrightarrow>
        activeSessionId (handleDelete uid st) = activeSessionId st)"
  by (simp add: keys_handleDelete) (simp add: handleDelete_def Let_def)

theorem remove_deletes_and_clears_active_witness:
  "activeSessionId ex_home = Some ''A''
   \<and> sessions (handleDelete ''A'' ex_home) = [ex_B]
   \<and> activeSessionId (handleDelete ''A'' ex_home) = None
   \<and> activeSessionId ex_home \<noteq> Some ''B''
   \<and> sessions (handleDelete ''B'' ex_home) = [ex_A]
   \<and> activeSessionId (handleDelete ''B'' ex_home) = Some ''A''"
  using remove_deletes_and_clears_active [of "''A''" ex_home]
    remove_deletes_and_clears_active [of "''B''" ex_home]
  by (simp add: ex_home_def Home_init_def ex_A_def ex_B_def)



end
